theory Spec2Isabelle
  imports Main
begin

section \<open>Go strings and the library functions the code calls\<close>

text \<open>
  A Go string is a sequence of bytes, here a \<^typ>\<open>string\<close> (a list of 8-bit characters).
  \<open>strings.HasPrefix\<close> and \<open>strings.Contains\<close> compare bytes.
\<close>

definition HasPrefix :: "string \<Rightarrow> string \<Rightarrow> bool" where
  "HasPrefix s pre = (take (length pre) s = pre)"

fun Contains :: "string \<Rightarrow> string \<Rightarrow> bool" where
  "Contains [] substr = (substr = [])"
| "Contains (c # s) substr = (HasPrefix (c # s) substr \<or> Contains s substr)"

text \<open>
  The packages the code imports and the repository does not hold are parameters of the
  model, gathered in one record:
  \<^item> \<open>glob_Compile\<close> is \<open>glob.Compile\<close> of github.com/gobwas/glob, followed by the
    \<open>Match\<close> method of the compiled glob: \<open>None\<close> when compilation returns an error,
    otherwise the matcher;
  \<^item> \<open>filepath_Match\<close> is \<open>filepath.Match\<close> of the standard library: the pair of
    \<open>matched\<close> and whether \<open>err\<close> is not nil;
  \<^item> \<open>unicode_ToLower\<close> is what \<open>strings.ToLower\<close> does to a string holding a byte
    outside ASCII (the mapping of \<open>unicode.ToLower\<close> over its runes).
\<close>

record lib =
  glob_Compile :: "string \<Rightarrow> (string \<Rightarrow> bool) option"
  filepath_Match :: "string \<Rightarrow> string \<Rightarrow> bool \<times> bool"
  unicode_ToLower :: "string \<Rightarrow> string"

text \<open>
  \<open>strings.ToLower\<close>: a string of ASCII bytes has its letters \<open>A\<close> to \<open>Z\<close> moved to
  \<open>a\<close> to \<open>z\<close>; any other string goes through the Unicode mapping.
\<close>

definition lower_byte :: "char \<Rightarrow> char" where
  "lower_byte c =
     (let n = (of_char c :: nat) in if 65 \<le> n \<and> n \<le> 90 then char_of (n + 32) else c)"

definition ToLower :: "lib \<Rightarrow> string \<Rightarrow> string" where
  "ToLower E s =
     (if list_all (\<lambda>c. (of_char c :: nat) < 128) s then map lower_byte s
      else unicode_ToLower E s)"

section \<open>Package config\<close>

text \<open>
  The structs of the package. The fields \<open>RequireConfirmation\<close> and \<open>BlockedActions\<close>
  occur in several structs; those of \<open>DefaultsConfig\<close>, \<open>ClusterRules\<close> and
  \<open>TierConfig\<close> carry the struct's name here. A Go map is a partial function.
\<close>

record DefaultsConfig =
  Defaults_RequireConfirmation :: bool
  Defaults_BlockedActions :: "string list"

record ClusterRules =
  Cluster_Tier :: string
  Cluster_RequireConfirmation :: "string list"
  Cluster_BlockedActions :: "string list"

record TierConfig =
  Patterns :: "string list"
  Tier_RequireConfirmation :: "string list"
  Tier_BlockedActions :: "string list"

record ResolvedRules =
  Tier :: string
  RequireConfirmation :: "string list"
  BlockedActions :: "string list"

record Config =
  Defaults :: DefaultsConfig
  Clusters :: "string \<rightharpoonup> ClusterRules"
  Tiers :: "string \<rightharpoonup> TierConfig"

definition Default :: Config where
  "Default =
     \<lparr>Defaults = \<lparr>Defaults_RequireConfirmation = False, Defaults_BlockedActions = []\<rparr>,
      Clusters = Map.empty,
      Tiers = map_of
        [(''production'',
          \<lparr>Patterns = [''*-prod'', ''*-production'', ''prod-*'', ''production-*''],
           Tier_RequireConfirmation = [''delete'', ''drain''],
           Tier_BlockedActions = []\<rparr>),
         (''staging'',
          \<lparr>Patterns = [''*-staging'', ''*-stg'', ''staging-*'', ''stg-*''],
           Tier_RequireConfirmation = [''delete''],
           Tier_BlockedActions = []\<rparr>),
         (''development'',
          \<lparr>Patterns = [''*-dev'', ''*-development'', ''dev-*'', ''development-*'',
             ''local*'', ''minikube'', ''docker-desktop'', ''kind-*''],
           Tier_RequireConfirmation = [],
           Tier_BlockedActions = []\<rparr>)]\<rparr>"

text \<open>
  \<open>matchGlob\<close>: the compiled glob decides; when compilation fails, \<open>filepath.Match\<close>
  decides and its error is dropped.
\<close>

definition matchGlob :: "lib \<Rightarrow> string \<Rightarrow> string \<Rightarrow> bool" where
  "matchGlob E pattern str =
     (case glob_Compile E pattern of
        None \<Rightarrow> (case filepath_Match E pattern str of (matched, _) \<Rightarrow> matched)
      | Some g \<Rightarrow> g str)"

text \<open>
  \<open>GetClusterRules\<close> ranges over the two maps. Go leaves the order in which a
  \<open>range\<close> statement visits the keys of a map open, and it may differ from one
  execution of the statement to the next; the order of each of the two statements is an
  argument of the model: \<open>ckeys\<close> lists the keys of \<open>Clusters\<close> and \<open>tkeys\<close> those of
  \<open>Tiers\<close> in the order of the visit. A listed name that is not a key of the map is not
  visited. Each loop returns \<open>Some\<close> of the rules when its body returns and \<open>None\<close>
  when it runs to its end.
\<close>

fun rangeClusters ::
  "lib \<Rightarrow> (string \<rightharpoonup> ClusterRules) \<Rightarrow> string list \<Rightarrow> string \<Rightarrow> ResolvedRules option" where
  "rangeClusters E clusters [] context = None"
| "rangeClusters E clusters (pattern # keys) context =
     (case clusters pattern of
        None \<Rightarrow> rangeClusters E clusters keys context
      | Some rules \<Rightarrow>
          if matchGlob E pattern context
          then Some \<lparr>Tier = Cluster_Tier rules,
                     RequireConfirmation = Cluster_RequireConfirmation rules,
                     BlockedActions = Cluster_BlockedActions rules\<rparr>
          else rangeClusters E clusters keys context)"

fun rangePatterns :: "lib \<Rightarrow> string list \<Rightarrow> string \<Rightarrow> bool" where
  "rangePatterns E [] context = False"
| "rangePatterns E (pattern # rest) context =
     (if matchGlob E pattern context then True else rangePatterns E rest context)"

fun rangeTiers ::
  "lib \<Rightarrow> (string \<rightharpoonup> TierConfig) \<Rightarrow> string list \<Rightarrow> string \<Rightarrow> ResolvedRules option" where
  "rangeTiers E tiers [] context = None"
| "rangeTiers E tiers (tierName # keys) context =
     (case tiers tierName of
        None \<Rightarrow> rangeTiers E tiers keys context
      | Some tier \<Rightarrow>
          if rangePatterns E (Patterns tier) context
          then Some \<lparr>Tier = tierName,
                     RequireConfirmation = Tier_RequireConfirmation tier,
                     BlockedActions = Tier_BlockedActions tier\<rparr>
          else rangeTiers E tiers keys context)"

definition GetClusterRules ::
  "lib \<Rightarrow> Config \<Rightarrow> string list \<Rightarrow> string list \<Rightarrow> string \<Rightarrow> ResolvedRules" where
  "GetClusterRules E c ckeys tkeys context =
     (case Clusters c context of
        Some rules \<Rightarrow>
          \<lparr>Tier = Cluster_Tier rules,
           RequireConfirmation = Cluster_RequireConfirmation rules,
           BlockedActions = Cluster_BlockedActions rules\<rparr>
      | None \<Rightarrow>
          (case rangeClusters E (Clusters c) ckeys context of
             Some r \<Rightarrow> r
           | None \<Rightarrow>
               (case rangeTiers E (Tiers c) tkeys context of
                  Some r \<Rightarrow> r
                | None \<Rightarrow>
                    (let confirmActions =
                       (if Defaults_RequireConfirmation (Defaults c)
                        then [''delete'', ''drain''] else [])
                     in \<lparr>Tier = ''default'',
                         RequireConfirmation = confirmActions,
                         BlockedActions = Defaults_BlockedActions (Defaults c)\<rparr>))))"

section \<open>Package rbac\<close>

definition ActionDelete :: string where "ActionDelete = ''delete''"
definition ActionDrain :: string where "ActionDrain = ''drain''"
definition ActionCordon :: string where "ActionCordon = ''cordon''"
definition ActionScale :: string where "ActionScale = ''scale''"
definition ActionEdit :: string where "ActionEdit = ''edit''"
definition ActionPatch :: string where "ActionPatch = ''patch''"
definition ActionApply :: string where "ActionApply = ''apply''"
definition ActionCreate :: string where "ActionCreate = ''create''"
definition ActionExec :: string where "ActionExec = ''exec''"
definition ActionRollout :: string where "ActionRollout = ''rollout''"
definition ActionUnknown :: string where "ActionUnknown = ''unknown''"

text \<open>The map \<open>DestructiveActions\<close> from kubectl commands to action types.\<close>

definition DestructiveActions :: "string \<rightharpoonup> string" where
  "DestructiveActions = map_of
     [(''delete'', ActionDelete),
      (''drain'', ActionDrain),
      (''cordon'', ActionCordon),
      (''uncordon'', ActionCordon),
      (''scale'', ActionScale),
      (''edit'', ActionEdit),
      (''patch'', ActionPatch),
      (''apply'', ActionApply),
      (''create'', ActionCreate),
      (''exec'', ActionExec),
      (''rollout'', ActionRollout)]"

text \<open>
  The map \<open>flagsWithValues\<close> holds \<open>true\<close> at each of its keys; reading a Go map of
  booleans at a key it does not hold gives \<open>false\<close>.
\<close>

definition flagsWithValues :: "string \<Rightarrow> bool" where
  "flagsWithValues arg = (arg \<in> set
     [''-n'', ''--namespace'', ''-l'', ''--selector'', ''-o'', ''--output'', ''-f'',
      ''--filename'', ''--context'', ''--kubeconfig'', ''--cluster'', ''--user'', ''-c'',
      ''--container'', ''--field-selector'', ''--sort-by'', ''--template'', ''-p'',
      ''--patch'', ''--type'', ''--replicas'', ''--timeout'', ''--grace-period''])"

text \<open>
  \<open>DetectAction\<close>: the body of the loop over \<open>args\<close>, with the variable \<open>skipNext\<close> as
  an argument; a \<open>continue\<close> is the recursive call and a \<open>return\<close> ends the recursion.
\<close>

fun DetectAction_loop :: "bool \<Rightarrow> string list \<Rightarrow> string" where
  "DetectAction_loop skipNext [] = ActionUnknown"
| "DetectAction_loop skipNext (arg # rest) =
     (if skipNext then DetectAction_loop False rest
      else if HasPrefix arg ''--'' \<and> Contains arg ''='' then DetectAction_loop skipNext rest
      else if HasPrefix arg ''-'' then
        (if flagsWithValues arg then DetectAction_loop True rest
         else DetectAction_loop skipNext rest)
      else (case DestructiveActions arg of
              Some action \<Rightarrow> action
            | None \<Rightarrow> arg))"

definition DetectAction :: "string list \<Rightarrow> string" where
  "DetectAction args =
     (if length args = 0 then ActionUnknown else DetectAction_loop False args)"

definition matchAction :: "lib \<Rightarrow> string \<Rightarrow> string \<Rightarrow> bool" where
  "matchAction E rule0 action0 =
     (let rule = ToLower E rule0; action = ToLower E action0 in
      if rule = action then True
      else if rule = ActionDrain then action = ActionDrain \<or> action = ActionCordon
      else if rule = ActionDelete then action = ActionDelete
      else if rule = ActionScale then action = ActionScale
      else if rule = ActionEdit then action = ActionEdit \<or> action = ActionPatch
      else if rule = ActionApply then action = ActionApply \<or> action = ActionCreate
      else if rule = ActionExec then action = ActionExec
      else if rule = ActionRollout then action = ActionRollout
      else False)"

fun IsBlocked_loop :: "lib \<Rightarrow> string \<Rightarrow> string list \<Rightarrow> bool" where
  "IsBlocked_loop E action [] = False"
| "IsBlocked_loop E action (blocked # rest) =
     (if matchAction E blocked action then True else IsBlocked_loop E action rest)"

definition IsBlocked :: "lib \<Rightarrow> string \<Rightarrow> ResolvedRules \<Rightarrow> bool" where
  "IsBlocked E action rules = IsBlocked_loop E action (BlockedActions rules)"

fun RequiresConfirmation_loop :: "lib \<Rightarrow> string \<Rightarrow> string list \<Rightarrow> bool" where
  "RequiresConfirmation_loop E action [] = False"
| "RequiresConfirmation_loop E action (confirm # rest) =
     (if matchAction E confirm action then True
      else RequiresConfirmation_loop E action rest)"

definition RequiresConfirmation :: "lib \<Rightarrow> string \<Rightarrow> ResolvedRules \<Rightarrow> bool" where
  "RequiresConfirmation E action rules =
     RequiresConfirmation_loop E action (RequireConfirmation rules)"

definition GetActionSeverity :: "string \<Rightarrow> string" where
  "GetActionSeverity action =
     (if action = ActionDelete \<or> action = ActionDrain then ''high''
      else if action = ActionScale \<or> action = ActionCordon then ''medium''
      else if action = ActionEdit \<or> action = ActionPatch \<or> action = ActionRollout
        then ''medium''
      else if action = ActionApply \<or> action = ActionCreate then ''low''
      else ''none'')"

definition DescribeAction :: "string \<Rightarrow> string" where
  "DescribeAction action =
     (if action = ActionDelete then ''Delete resources''
      else if action = ActionDrain then ''Drain node (evict all pods)''
      else if action = ActionCordon then ''Cordon/uncordon node''
      else if action = ActionScale then ''Scale deployment replicas''
      else if action = ActionEdit then ''Edit resource configuration''
      else if action = ActionPatch then ''Patch resource''
      else if action = ActionApply then ''Apply configuration''
      else if action = ActionCreate then ''Create resource''
      else if action = ActionExec then ''Execute command in pod''
      else if action = ActionRollout then ''Manage rollout''
      else action)"

section \<open>The command: extracting the skip flag, the checks, the execution\<close>

text \<open>
  What one run of \<open>main\<close> ends in, from the extraction of \<open>--yes\<close> on: the exit after
  the message that the action is blocked (with the reason printed), the exit after the
  user declined at the prompt, or the execution of kubectl with the arguments given.
\<close>

datatype outcome = Blocked string | Cancelled | Executed "string list"

fun extractYes_loop :: "bool \<Rightarrow> string list \<Rightarrow> string list \<Rightarrow> bool \<times> string list" where
  "extractYes_loop hasYesFlag filteredArgs [] = (hasYesFlag, filteredArgs)"
| "extractYes_loop hasYesFlag filteredArgs (arg # rest) =
     (if arg = ''--yes'' \<or> arg = ''-y'' then extractYes_loop True filteredArgs rest
      else extractYes_loop hasYesFlag (filteredArgs @ [arg]) rest)"

text \<open>
  The checks of \<open>main\<close> on the detected action and the rules of the cluster;
  \<open>confirmed\<close> is the answer \<open>output.PromptConfirmation\<close> returns if it is called.
\<close>

definition main_checks ::
  "lib \<Rightarrow> string \<Rightarrow> ResolvedRules \<Rightarrow> bool \<Rightarrow> bool \<Rightarrow> string list \<Rightarrow> outcome" where
  "main_checks E action rules hasYesFlag confirmed args =
     (if IsBlocked E action rules
      then Blocked (''Action '' @ [CHR 0x27] @ action @ [CHR 0x27]
                    @ '' is configured as blocked for tier '' @ [CHR 0x27] @ Tier rules
                    @ [CHR 0x27])
      else if RequiresConfirmation E action rules \<and> \<not> hasYesFlag
      then (if confirmed then Executed args else Cancelled)
      else Executed args)"

text \<open>
  \<open>main\<close> from the extraction of the skip flag on; the configuration \<open>cfg\<close> and the
  context name are those the earlier part of \<open>main\<close> has obtained.
\<close>

definition main ::
  "lib \<Rightarrow> Config \<Rightarrow> string list \<Rightarrow> string list \<Rightarrow> string \<Rightarrow> bool \<Rightarrow> string list \<Rightarrow> outcome" where
  "main E cfg ckeys tkeys context confirmed args0 =
     (case extractYes_loop False [] args0 of
        (hasYesFlag, args) \<Rightarrow>
          (let action = DetectAction args;
               rules = GetClusterRules E cfg ckeys tkeys context
           in main_checks E action rules hasYesFlag confirmed args))"

section \<open>Notions of the specification\<close>

text \<open>
  The tokens the classifier skips before the first token that is not a flag, as the
  specification lists them: a flag that consumes a value together with the token after
  it, a token of the form \<open>--flag=value\<close>, and any other token with the flag prefix.
  \<open>flag_units pre\<close> says that \<open>pre\<close> is a sequence of such units.
\<close>

inductive flag_units :: "string list \<Rightarrow> bool" where
  no_flags: "flag_units []"
| flag_with_value: "flagsWithValues f \<Longrightarrow> flag_units rest \<Longrightarrow> flag_units (f # v # rest)"
| flag_assignment:
    "HasPrefix a ''--'' \<Longrightarrow> Contains a ''='' \<Longrightarrow> flag_units rest \<Longrightarrow> flag_units (a # rest)"
| plain_flag:
    "HasPrefix a ''-'' \<Longrightarrow> \<not> flagsWithValues a \<Longrightarrow> flag_units rest \<Longrightarrow> flag_units (a # rest)"

section \<open>Inputs for evaluation\<close>

text \<open>
  To evaluate the model, the library parameter needs a value. \<open>star_match\<close> matches a
  pattern in which \<open>*\<close> stands for any run of bytes and every other byte for itself. On
  a pattern whose only special character is \<open>*\<close> and a name without a path separator,
  the compiled glob and \<open>filepath.Match\<close> both decide in this way. \<open>example_lib\<close> knows
  no character classes: it reports an error for every pattern that holds \<open>[\<close>, as both
  packages do for a class that is never closed, such as the pattern \<open>[\<close> itself. Its
  Unicode mapping is the identity; the instances below are ASCII and do not reach it.
  The theorems hold for every library; only their instances at concrete inputs use this
  one.
\<close>

fun star_match :: "string \<Rightarrow> string \<Rightarrow> bool" where
  "star_match [] s = (s = [])"
| "star_match (p # ps) [] = (p = CHR ''*'' \<and> star_match ps [])"
| "star_match (p # ps) (c # s) =
     (if p = CHR ''*'' then star_match ps (c # s) \<or> star_match (p # ps) s
      else p = c \<and> star_match ps s)"

definition example_lib :: lib where
  "example_lib =
     \<lparr>glob_Compile = (\<lambda>pattern. if CHR ''['' \<in> set pattern then None
                                else Some (star_match pattern)),
      filepath_Match = (\<lambda>pattern name. if CHR ''['' \<in> set pattern then (False, True)
                                       else (star_match pattern name, False)),
      unicode_ToLower = (\<lambda>s. s)\<rparr>"

text \<open>The configuration of the test \<open>TestGetClusterRules_Priority\<close>.\<close>

definition priority_config :: Config where
  "priority_config =
     \<lparr>Defaults = \<lparr>Defaults_RequireConfirmation = False, Defaults_BlockedActions = []\<rparr>,
      Clusters = map_of
        [(''special-prod'',
          \<lparr>Cluster_Tier = ''special'',
           Cluster_RequireConfirmation = [''scale''],
           Cluster_BlockedActions = [''delete'']\<rparr>)],
      Tiers = map_of
        [(''production'',
          \<lparr>Patterns = [''*-prod''],
           Tier_RequireConfirmation = [''delete'', ''drain''],
           Tier_BlockedActions = []\<rparr>)]\<rparr>"

text \<open>A configuration with two cluster keys that are patterns, and no tiers.\<close>

definition two_patterns_config :: Config where
  "two_patterns_config =
     \<lparr>Defaults = \<lparr>Defaults_RequireConfirmation = True, Defaults_BlockedActions = [''exec'']\<rparr>,
      Clusters = map_of
        [(''prod-*'',
          \<lparr>Cluster_Tier = ''production'',
           Cluster_RequireConfirmation = [''delete'', ''drain''],
           Cluster_BlockedActions = []\<rparr>),
         (''*-eu'',
          \<lparr>Cluster_Tier = ''europe'',
           Cluster_RequireConfirmation = [],
           Cluster_BlockedActions = [''delete'']\<rparr>)],
      Tiers = Map.empty\<rparr>"

text \<open>
  The default configuration with one cluster key added, a pattern that matches names
  the production and the development tier match as well.
\<close>

definition pattern_and_tiers_config :: Config where
  "pattern_and_tiers_config =
     \<lparr>Defaults = Defaults Default,
      Clusters = map_of
        [(''prod-*'',
          \<lparr>Cluster_Tier = ''critical'',
           Cluster_RequireConfirmation = [''delete''],
           Cluster_BlockedActions = [''drain'']\<rparr>)],
      Tiers = Tiers Default\<rparr>"

text \<open>A configuration whose production tier lists a pattern that does not compile.\<close>

definition malformed_config :: Config where
  "malformed_config =
     \<lparr>Defaults = \<lparr>Defaults_RequireConfirmation = False, Defaults_BlockedActions = []\<rparr>,
      Clusters = Map.empty,
      Tiers = map_of
        [(''production'',
          \<lparr>Patterns = [''['', ''*-prod''],
           Tier_RequireConfirmation = [''delete'', ''drain''],
           Tier_BlockedActions = []\<rparr>)]\<rparr>"

section \<open>Facts about the library functions and the loops\<close>

lemmas Action_defs =
  ActionDelete_def ActionDrain_def ActionCordon_def ActionScale_def ActionEdit_def
  ActionPatch_def ActionApply_def ActionCreate_def ActionExec_def ActionRollout_def
  ActionUnknown_def

text \<open>The facts that evaluate \<open>strings.ToLower\<close> on a literal.\<close>

lemmas ToLower_eval = ToLower_def lower_byte_def char_of_def bit_iff_odd_drop_bit

lemma Contains_byte: "Contains s [c] \<longleftrightarrow> c \<in> set s"
  by (induction s) (auto simp: HasPrefix_def)

lemma HasPrefix_dash: "HasPrefix s ''-'' \<longleftrightarrow> (\<exists>t. s = CHR ''-'' # t)"
  by (cases s) (auto simp: HasPrefix_def)

text \<open>Every key of \<open>flagsWithValues\<close> starts with a dash and holds no equals sign.\<close>

lemma flagsWithValues_shape:
  "flagsWithValues f \<Longrightarrow> HasPrefix f ''-'' \<and> \<not> Contains f ''=''"
  unfolding flagsWithValues_def Contains_byte HasPrefix_dash
  by (simp only: set_simps insert_iff empty_iff, elim disjE) simp_all

lemma ToLower_ascii:
  "list_all (\<lambda>c. (of_char c :: nat) < 128) s \<Longrightarrow> ToLower E s = map lower_byte s"
  by (simp add: ToLower_def)

lemma matchAction_iff:
  "matchAction E rule action \<longleftrightarrow>
     (ToLower E rule = ToLower E action
      \<or> (ToLower E rule = ''drain'' \<and> ToLower E action = ''cordon'')
      \<or> (ToLower E rule = ''edit'' \<and> ToLower E action = ''patch'')
      \<or> (ToLower E rule = ''apply'' \<and> ToLower E action = ''create''))"
  by (auto simp: matchAction_def Let_def Action_defs)

lemma IsBlocked_loop_iff:
  "IsBlocked_loop E action bs \<longleftrightarrow> (\<exists>blocked\<in>set bs. matchAction E blocked action)"
  by (induction bs) auto

lemma RequiresConfirmation_loop_iff:
  "RequiresConfirmation_loop E action cs \<longleftrightarrow>
     (\<exists>confirm\<in>set cs. matchAction E confirm action)"
  by (induction cs) auto

text \<open>The loop of \<open>DetectAction\<close> passes over a sequence of flag units unchanged.\<close>

lemma DetectAction_loop_skip_units:
  "flag_units pre \<Longrightarrow> DetectAction_loop False (pre @ xs) = DetectAction_loop False xs"
proof (induction pre rule: flag_units.induct)
  case no_flags
  show ?case by simp
next
  case (flag_with_value f rest v)
  then show ?case using flagsWithValues_shape [of f] by simp
next
  case (flag_assignment a rest)
  then show ?case by simp
next
  case (plain_flag a rest)
  then show ?case by simp
qed

lemma DetectAction_loop_all_flags:
  "\<forall>a\<in>set args. HasPrefix a ''-'' \<Longrightarrow> DetectAction_loop skipNext args = ActionUnknown"
  by (induction args arbitrary: skipNext) simp_all

lemma DetectAction_eq_loop: "DetectAction args = DetectAction_loop False args"
  by (cases args) (simp_all add: DetectAction_def)

lemma extractYes_loop_eq:
  "extractYes_loop h acc args =
     (h \<or> list_ex (\<lambda>a. a = ''--yes'' \<or> a = ''-y'') args,
      acc @ filter (\<lambda>a. a \<noteq> ''--yes'' \<and> a \<noteq> ''-y'') args)"
  by (induction args arbitrary: h acc) auto

lemma HasPrefix_dashes: "HasPrefix s ''--'' \<Longrightarrow> HasPrefix s ''-''"
  by (cases s) (auto simp: HasPrefix_def)

lemma DetectAction_loop_verb:
  "verb \<in> {''delete'', ''drain'', ''cordon'', ''uncordon'', ''scale'', ''edit'', ''patch'',
     ''apply'', ''create'', ''exec'', ''rollout''} \<Longrightarrow>
   DetectAction_loop False (verb # rest) = (if verb = ''uncordon'' then ''cordon'' else verb)"
  by (simp only: insert_iff empty_iff, elim disjE)
     (simp_all add: HasPrefix_def DestructiveActions_def Action_defs)

lemma DestructiveActions_None:
  "tok \<notin> {''delete'', ''drain'', ''cordon'', ''uncordon'', ''scale'', ''edit'', ''patch'',
     ''apply'', ''create'', ''exec'', ''rollout''} \<Longrightarrow> DestructiveActions tok = None"
  by (simp add: DestructiveActions_def)

lemma DetectAction_loop_other:
  "\<not> HasPrefix tok ''-'' \<Longrightarrow> DestructiveActions tok = None \<Longrightarrow>
   DetectAction_loop False (tok # rest) = tok"
  using HasPrefix_dashes [of tok] by auto

lemma flag_units_example: "flag_units [''-n'', ''default'', ''-l'', ''app=test'']"
  by (intro flag_units.intros) (simp_all add: flagsWithValues_def)

lemma flag_units_example2:
  "flag_units [''--namespace=kube-system'', ''--watch'', ''-o'', ''json'']"
  by (intro flag_units.intros) (simp_all add: flagsWithValues_def HasPrefix_def)

lemma rangePatterns_iff:
  "rangePatterns E ps context \<longleftrightarrow> (\<exists>p\<in>set ps. matchGlob E p context)"
  by (induction ps) auto

lemma rangeClusters_None_iff:
  "rangeClusters E m keys context = None \<longleftrightarrow>
     (\<forall>k\<in>set keys. k \<in> dom m \<longrightarrow> \<not> matchGlob E k context)"
  by (induction keys) (auto split: option.splits)

lemma rangeClusters_Some:
  "rangeClusters E m keys context = Some r \<Longrightarrow>
     \<exists>k\<in>set keys. \<exists>rules. m k = Some rules \<and> matchGlob E k context
       \<and> r = \<lparr>Tier = Cluster_Tier rules,
                RequireConfirmation = Cluster_RequireConfirmation rules,
                BlockedActions = Cluster_BlockedActions rules\<rparr>"
  by (induction keys) (auto split: option.splits if_splits)

lemma rangeTiers_None_iff:
  "rangeTiers E m keys context = None \<longleftrightarrow>
     (\<forall>t\<in>set keys. \<forall>tier. m t = Some tier \<longrightarrow>
        (\<forall>p\<in>set (Patterns tier). \<not> matchGlob E p context))"
  by (induction keys) (auto simp: rangePatterns_iff split: option.splits)

lemma rangeTiers_Some:
  "rangeTiers E m keys context = Some r \<Longrightarrow>
     \<exists>t\<in>set keys. \<exists>tier. m t = Some tier
       \<and> (\<exists>p\<in>set (Patterns tier). matchGlob E p context)
       \<and> r = \<lparr>Tier = t,
                RequireConfirmation = Tier_RequireConfirmation tier,
                BlockedActions = Tier_BlockedActions tier\<rparr>"
  by (induction keys) (auto simp: rangePatterns_iff split: option.splits if_splits)

lemma GetClusterRules_exact:
  "Clusters c context = Some rules \<Longrightarrow>
   GetClusterRules E c ckeys tkeys context =
     \<lparr>Tier = Cluster_Tier rules,
      RequireConfirmation = Cluster_RequireConfirmation rules,
      BlockedActions = Cluster_BlockedActions rules\<rparr>"
  by (simp add: GetClusterRules_def)

lemma matchGlob_example:
  "matchGlob example_lib pattern str =
     (if CHR ''['' \<in> set pattern then False else star_match pattern str)"
  by (simp add: matchGlob_def example_lib_def)

lemma rangeClusters_same_rules:
  assumes u: "\<forall>k k' r r'. m k = Some r \<and> m k' = Some r' \<and> matchGlob E k context
                \<and> matchGlob E k' context \<longrightarrow> r = r'"
    and s: "set keys = set keys'"
  shows "rangeClusters E m keys context = rangeClusters E m keys' context"
proof (cases "rangeClusters E m keys context")
  case None
  then have "rangeClusters E m keys' context = None"
    by (simp add: rangeClusters_None_iff s)
  with None show ?thesis by simp
next
  case (Some r)
  have "(rangeClusters E m keys context = None) = (rangeClusters E m keys' context = None)"
    by (simp add: rangeClusters_None_iff s)
  with Some have "rangeClusters E m keys' context \<noteq> None"
    by simp
  then obtain r' where r': "rangeClusters E m keys' context = Some r'" by blast
  from rangeClusters_Some [OF Some] obtain k rules where
    k: "m k = Some rules" "matchGlob E k context"
      "r = \<lparr>Tier = Cluster_Tier rules,
             RequireConfirmation = Cluster_RequireConfirmation rules,
             BlockedActions = Cluster_BlockedActions rules\<rparr>"
    by blast
  from rangeClusters_Some [OF r'] obtain k' rules' where
    k': "m k' = Some rules'" "matchGlob E k' context"
      "r' = \<lparr>Tier = Cluster_Tier rules',
             RequireConfirmation = Cluster_RequireConfirmation rules',
             BlockedActions = Cluster_BlockedActions rules'\<rparr>"
    by blast
  from u k(1,2) k'(1,2) have "rules = rules'" by blast
  with k(3) k'(3) have "r = r'" by simp
  with Some r' show ?thesis by simp
qed

lemma rangeTiers_unique:
  assumes u: "\<forall>t t' tier tier'. m t = Some tier \<and> m t' = Some tier'
                \<and> (\<exists>p\<in>set (Patterns tier). matchGlob E p context)
                \<and> (\<exists>p\<in>set (Patterns tier'). matchGlob E p context) \<longrightarrow> t = t'"
    and s: "set keys = set keys'"
  shows "rangeTiers E m keys context = rangeTiers E m keys' context"
proof (cases "rangeTiers E m keys context")
  case None
  then have "rangeTiers E m keys' context = None"
    by (simp add: rangeTiers_None_iff s)
  with None show ?thesis by simp
next
  case (Some r)
  have "(rangeTiers E m keys context = None) = (rangeTiers E m keys' context = None)"
    by (simp add: rangeTiers_None_iff s)
  with Some have "rangeTiers E m keys' context \<noteq> None"
    by simp
  then obtain r' where r': "rangeTiers E m keys' context = Some r'" by blast
  from rangeTiers_Some [OF Some] obtain t tier where
    t: "m t = Some tier" "\<exists>p\<in>set (Patterns tier). matchGlob E p context"
      "r = \<lparr>Tier = t, RequireConfirmation = Tier_RequireConfirmation tier,
             BlockedActions = Tier_BlockedActions tier\<rparr>"
    by blast
  from rangeTiers_Some [OF r'] obtain t' tier' where
    t': "m t' = Some tier'" "\<exists>p\<in>set (Patterns tier'). matchGlob E p context"
      "r' = \<lparr>Tier = t', RequireConfirmation = Tier_RequireConfirmation tier',
             BlockedActions = Tier_BlockedActions tier'\<rparr>"
    by blast
  from u t(1,2) t'(1,2) have "t = t'" by blast
  with t(1,3) t'(1,3) have "r = r'" by simp
  with Some r' show ?thesis by simp
qed

lemma two_patterns_dom:
  "dom (Clusters two_patterns_config) = {''prod-*'', ''*-eu''}"
  "dom (Tiers two_patterns_config) = {}"
  by (auto simp: two_patterns_config_def split: if_splits)

lemma Default_dom:
  "dom (Clusters Default) = {}"
  "dom (Tiers Default) = {''production'', ''staging'', ''development''}"
  by (auto simp: Default_def split: if_splits)

lemma Default_unique:
  "Tiers Default t = Some tier \<Longrightarrow>
   \<exists>p\<in>set (Patterns tier). matchGlob example_lib p ''prod-us-east-1'' \<Longrightarrow>
   t = ''production''"
  by (auto simp: Default_def matchGlob_example split: if_splits)

lemma rangeClusters_first:
  "m k = Some rules \<Longrightarrow> matchGlob E k context \<Longrightarrow>
   rangeClusters E m (k # keys) context =
     Some \<lparr>Tier = Cluster_Tier rules,
           RequireConfirmation = Cluster_RequireConfirmation rules,
           BlockedActions = Cluster_BlockedActions rules\<rparr>"
  by simp

lemma rangeTiers_first:
  "m t = Some tier \<Longrightarrow> \<exists>p\<in>set (Patterns tier). matchGlob E p context \<Longrightarrow>
   rangeTiers E m (t # keys) context =
     Some \<lparr>Tier = t, RequireConfirmation = Tier_RequireConfirmation tier,
           BlockedActions = Tier_BlockedActions tier\<rparr>"
  by (simp add: rangePatterns_iff)

lemma GetClusterRules_cluster_pattern:
  "Clusters c context = None \<Longrightarrow> rangeClusters E (Clusters c) ckeys context = Some r \<Longrightarrow>
   GetClusterRules E c ckeys tkeys context = r"
  by (simp add: GetClusterRules_def)

lemma GetClusterRules_tier_pattern:
  "Clusters c context = None \<Longrightarrow> rangeClusters E (Clusters c) ckeys context = None \<Longrightarrow>
   rangeTiers E (Tiers c) tkeys context = Some r \<Longrightarrow>
   GetClusterRules E c ckeys tkeys context = r"
  by (simp add: GetClusterRules_def)

text \<open>An enumeration of a finite set of keys that starts with a chosen key.\<close>

lemma enumeration_from:
  assumes "finite A" and "k \<in> A"
  shows "\<exists>keys. distinct (k # keys) \<and> set (k # keys) = A"
proof -
  from assms(1) obtain xs where xs: "set xs = A" "distinct xs"
    using finite_distinct_list by blast
  with assms(2) have "distinct (k # removeAll k xs) \<and> set (k # removeAll k xs) = A"
    by (auto simp: distinct_removeAll)
  then show ?thesis by blast
qed

lemma enumeration_any:
  assumes "finite A"
  shows "\<exists>keys. distinct keys \<and> set keys = A"
  using assms finite_distinct_list by blast

lemma GetClusterRules_order_independent:
  assumes "set ckeys = dom (Clusters c)" and "set ckeys' = dom (Clusters c)"
    and "set tkeys = dom (Tiers c)" and "set tkeys' = dom (Tiers c)"
    and "context \<in> dom (Clusters c)
         \<or> ((\<forall>k k' r r'. Clusters c k = Some r \<and> Clusters c k' = Some r'
                  \<and> matchGlob E k context \<and> matchGlob E k' context \<longrightarrow> r = r')
            \<and> ((\<exists>k\<in>dom (Clusters c). matchGlob E k context)
                \<or> (\<forall>t t' tier tier'. Tiers c t = Some tier \<and> Tiers c t' = Some tier'
                      \<and> (\<exists>p\<in>set (Patterns tier). matchGlob E p context)
                      \<and> (\<exists>p\<in>set (Patterns tier'). matchGlob E p context) \<longrightarrow> t = t')))"
  shows "GetClusterRules E c ckeys tkeys context = GetClusterRules E c ckeys' tkeys' context"
proof (cases "Clusters c context")
  case (Some rules)
  then show ?thesis by (simp add: GetClusterRules_def)
next
  case None
  then have "context \<notin> dom (Clusters c)" by blast
  with assms(5) have
    uc: "\<forall>k k' r r'. Clusters c k = Some r \<and> Clusters c k' = Some r'
                  \<and> matchGlob E k context \<and> matchGlob E k' context \<longrightarrow> r = r'"
    and d: "(\<exists>k\<in>dom (Clusters c). matchGlob E k context)
                \<or> (\<forall>t t' tier tier'. Tiers c t = Some tier \<and> Tiers c t' = Some tier'
                      \<and> (\<exists>p\<in>set (Patterns tier). matchGlob E p context)
                      \<and> (\<exists>p\<in>set (Patterns tier'). matchGlob E p context) \<longrightarrow> t = t')"
    by blast+
  have rc: "rangeClusters E (Clusters c) ckeys context
      = rangeClusters E (Clusters c) ckeys' context"
    using uc assms(1,2) by (intro rangeClusters_same_rules) simp_all
  from d show ?thesis
  proof
    assume "\<exists>k\<in>dom (Clusters c). matchGlob E k context"
    with assms(2) have "rangeClusters E (Clusters c) ckeys' context \<noteq> None"
      by (simp add: rangeClusters_None_iff)
    then obtain r where r: "rangeClusters E (Clusters c) ckeys' context = Some r"
      by blast
    with rc have r0: "rangeClusters E (Clusters c) ckeys context = Some r"
      by simp
    show ?thesis
      by (simp only: GetClusterRules_cluster_pattern [OF None r0]
          GetClusterRules_cluster_pattern [OF None r])
  next
    assume ut: "\<forall>t t' tier tier'. Tiers c t = Some tier \<and> Tiers c t' = Some tier'
                      \<and> (\<exists>p\<in>set (Patterns tier). matchGlob E p context)
                      \<and> (\<exists>p\<in>set (Patterns tier'). matchGlob E p context) \<longrightarrow> t = t'"
    have rt: "rangeTiers E (Tiers c) tkeys context = rangeTiers E (Tiers c) tkeys' context"
      using ut assms(3,4) by (intro rangeTiers_unique) simp_all
    show ?thesis unfolding GetClusterRules_def rc rt ..
  qed
qed

lemma GetClusterRules_order_dependent:
  assumes fc: "finite (dom (Clusters c))" and ft: "finite (dom (Tiers c))"
    and n: "context \<notin> dom (Clusters c)"
    and d: "(\<exists>k k' r r'. Clusters c k = Some r \<and> Clusters c k' = Some r'
               \<and> matchGlob E k context \<and> matchGlob E k' context \<and> r \<noteq> r')
          \<or> ((\<forall>k\<in>dom (Clusters c). \<not> matchGlob E k context)
              \<and> (\<exists>t t' tier tier'. Tiers c t = Some tier \<and> Tiers c t' = Some tier'
                    \<and> (\<exists>p\<in>set (Patterns tier). matchGlob E p context)
                    \<and> (\<exists>p\<in>set (Patterns tier'). matchGlob E p context) \<and> t \<noteq> t'))"
  shows "\<exists>ckeys ckeys' tkeys tkeys'.
           distinct ckeys \<and> set ckeys = dom (Clusters c)
           \<and> distinct ckeys' \<and> set ckeys' = dom (Clusters c)
           \<and> distinct tkeys \<and> set tkeys = dom (Tiers c)
           \<and> distinct tkeys' \<and> set tkeys' = dom (Tiers c)
           \<and> GetClusterRules E c ckeys tkeys context
               \<noteq> GetClusterRules E c ckeys' tkeys' context"
proof -
  from n have none: "Clusters c context = None" by blast
  from d show ?thesis
  proof
    assume "\<exists>k k' r r'. Clusters c k = Some r \<and> Clusters c k' = Some r'
               \<and> matchGlob E k context \<and> matchGlob E k' context \<and> r \<noteq> r'"
    then obtain k k' r r' where
      k: "Clusters c k = Some r" "matchGlob E k context"
      and k': "Clusters c k' = Some r'" "matchGlob E k' context"
      and ne: "r \<noteq> r'"
      by blast
    from k(1) have kd: "k \<in> dom (Clusters c)" by blast
    from enumeration_from [OF fc kd]
    obtain ks where ks: "distinct (k # ks)" "set (k # ks) = dom (Clusters c)"
      by (elim exE conjE)
    from k'(1) have kd': "k' \<in> dom (Clusters c)" by blast
    from enumeration_from [OF fc kd']
    obtain ks' where ks': "distinct (k' # ks')" "set (k' # ks') = dom (Clusters c)"
      by (elim exE conjE)
    from enumeration_any [OF ft]
    obtain ts where ts: "distinct ts" "set ts = dom (Tiers c)"
      by (elim exE conjE)
    have g: "GetClusterRules E c (k # ks) ts context =
        \<lparr>Tier = Cluster_Tier r, RequireConfirmation = Cluster_RequireConfirmation r,
         BlockedActions = Cluster_BlockedActions r\<rparr>"
      by (rule GetClusterRules_cluster_pattern [OF none rangeClusters_first [where m = "Clusters c", OF k]])
    have g': "GetClusterRules E c (k' # ks') ts context =
        \<lparr>Tier = Cluster_Tier r', RequireConfirmation = Cluster_RequireConfirmation r',
         BlockedActions = Cluster_BlockedActions r'\<rparr>"
      by (rule GetClusterRules_cluster_pattern [OF none rangeClusters_first [where m = "Clusters c", OF k']])
    from ne have neq: "GetClusterRules E c (k # ks) ts context
        \<noteq> GetClusterRules E c (k' # ks') ts context"
      unfolding g g' by (cases r, cases r') simp
    show ?thesis
      apply (rule exI [of _ "k # ks"])
      apply (rule exI [of _ "k' # ks'"])
      apply (rule exI [of _ ts])
      apply (rule exI [of _ ts])
      using ks ks' ts neq apply (simp only: simp_thms)
      done
  next
    assume a: "(\<forall>k\<in>dom (Clusters c). \<not> matchGlob E k context)
              \<and> (\<exists>t t' tier tier'. Tiers c t = Some tier \<and> Tiers c t' = Some tier'
                    \<and> (\<exists>p\<in>set (Patterns tier). matchGlob E p context)
                    \<and> (\<exists>p\<in>set (Patterns tier'). matchGlob E p context) \<and> t \<noteq> t')"
    then obtain t t' tier tier' where
      t: "Tiers c t = Some tier" "\<exists>p\<in>set (Patterns tier). matchGlob E p context"
      and t': "Tiers c t' = Some tier'" "\<exists>p\<in>set (Patterns tier'). matchGlob E p context"
      and ne: "t \<noteq> t'"
      by blast
    from a have nc: "\<And>ks. rangeClusters E (Clusters c) ks context = None"
      by (simp add: rangeClusters_None_iff)
    from t(1) have td: "t \<in> dom (Tiers c)" by blast
    from enumeration_from [OF ft td]
    obtain ts where ts: "distinct (t # ts)" "set (t # ts) = dom (Tiers c)"
      by (elim exE conjE)
    from t'(1) have td': "t' \<in> dom (Tiers c)" by blast
    from enumeration_from [OF ft td']
    obtain ts' where ts': "distinct (t' # ts')" "set (t' # ts') = dom (Tiers c)"
      by (elim exE conjE)
    from enumeration_any [OF fc]
    obtain ks where ks: "distinct ks" "set ks = dom (Clusters c)"
      by (elim exE conjE)
    have g: "GetClusterRules E c ks (t # ts) context =
        \<lparr>Tier = t, RequireConfirmation = Tier_RequireConfirmation tier,
         BlockedActions = Tier_BlockedActions tier\<rparr>"
      by (rule GetClusterRules_tier_pattern [OF none nc rangeTiers_first [where m = "Tiers c", OF t]])
    have g': "GetClusterRules E c ks (t' # ts') context =
        \<lparr>Tier = t', RequireConfirmation = Tier_RequireConfirmation tier',
         BlockedActions = Tier_BlockedActions tier'\<rparr>"
      by (rule GetClusterRules_tier_pattern [OF none nc rangeTiers_first [where m = "Tiers c", OF t']])
    from ne have neq: "GetClusterRules E c ks (t # ts) context
        \<noteq> GetClusterRules E c ks (t' # ts') context"
      unfolding g g' by simp
    show ?thesis
      apply (rule exI [of _ ks])
      apply (rule exI [of _ ks])
      apply (rule exI [of _ "t # ts"])
      apply (rule exI [of _ "t' # ts'"])
      using ks ts ts' neq apply (simp only: simp_thms)
      done
  qed
qed

lemma pattern_and_tiers_dom:
  "dom (Clusters pattern_and_tiers_config) = {''prod-*''}"
  "dom (Tiers pattern_and_tiers_config) = {''production'', ''staging'', ''development''}"
  by (auto simp: pattern_and_tiers_config_def Default_def split: if_splits)

lemma pattern_and_tiers_cluster:
  "Clusters pattern_and_tiers_config k = Some r \<Longrightarrow>
   r = \<lparr>Cluster_Tier = ''critical'', Cluster_RequireConfirmation = [''delete''],
        Cluster_BlockedActions = [''drain'']\<rparr>"
  by (auto simp: pattern_and_tiers_config_def split: if_splits)

lemma two_patterns_differ:
  "\<exists>k k' r r'. Clusters two_patterns_config k = Some r
     \<and> Clusters two_patterns_config k' = Some r'
     \<and> matchGlob example_lib k ''prod-eu'' \<and> matchGlob example_lib k' ''prod-eu''
     \<and> r \<noteq> r'"
  apply (rule exI [of _ "''prod-*''"])
  apply (rule exI [of _ "''*-eu''"])
  apply (simp add: two_patterns_config_def matchGlob_example)
  done

section \<open>The classifier\<close>

text \<open>
  Claim C3. When the first token after a sequence of flag units (flags that consume a
  value with their value tokens, \<open>--flag=value\<close> tokens, other flags) is one of the
  destructive verbs delete, drain, cordon, uncordon, scale, edit, patch, apply, create,
  exec, rollout, \<open>DetectAction\<close> returns its action tag: the verb itself, and cordon for
  uncordon. The number of units before the verb and the tokens after it do not matter.
\<close>

theorem DetectAction_destructive_verb:
  assumes "flag_units pre"
    and "verb \<in> {''delete'', ''drain'', ''cordon'', ''uncordon'', ''scale'', ''edit'',
           ''patch'', ''apply'', ''create'', ''exec'', ''rollout''}"
  shows "DetectAction (pre @ verb # rest) = (if verb = ''uncordon'' then ''cordon'' else verb)"
  using assms
  by (simp only: DetectAction_eq_loop DetectAction_loop_skip_units DetectAction_loop_verb)

theorem DetectAction_destructive_verb_witness:
  "DetectAction [''-n'', ''default'', ''-l'', ''app=test'', ''delete'', ''pods''] = ''delete''
   \<and> DetectAction [''uncordon'', ''node-1''] = ''cordon''
   \<and> DetectAction [''drain'', ''node-1'', ''--ignore-daemonsets''] = ''drain''"
  using DetectAction_destructive_verb [OF flag_units_example, of "''delete''" "[''pods'']"]
    DetectAction_destructive_verb [OF no_flags, of "''uncordon''" "[''node-1'']"]
    DetectAction_destructive_verb [OF no_flags, of "''drain''"
      "[''node-1'', ''--ignore-daemonsets'']"]
  by simp

text \<open>
  Claim C8. An argument vector with no token that is not a flag gives \<open>unknown\<close>: the
  empty vector, a sequence of flag units, such a sequence followed by a flag that still
  waits for its value, and any vector all of whose tokens have the flag prefix. When the
  first token after a sequence of flag units has no flag prefix and is none of the
  destructive verbs, \<open>DetectAction\<close> returns that token itself.
\<close>

theorem DetectAction_unknown_or_passthrough:
  "(flag_units pre \<longrightarrow> DetectAction pre = ''unknown'')
   \<and> (flag_units pre \<and> flagsWithValues f \<longrightarrow> DetectAction (pre @ [f]) = ''unknown'')
   \<and> ((\<forall>a\<in>set args. HasPrefix a ''-'') \<longrightarrow> DetectAction args = ''unknown'')
   \<and> (flag_units pre \<and> \<not> HasPrefix tok ''-''
        \<and> tok \<notin> {''delete'', ''drain'', ''cordon'', ''uncordon'', ''scale'', ''edit'',
                  ''patch'', ''apply'', ''create'', ''exec'', ''rollout''}
        \<longrightarrow> DetectAction (pre @ tok # rest) = tok)"
proof (intro conjI impI)
  assume "flag_units pre"
  then show "DetectAction pre = ''unknown''"
    using DetectAction_loop_skip_units [of pre "[]"]
    by (simp add: DetectAction_eq_loop ActionUnknown_def)
next
  assume "flag_units pre \<and> flagsWithValues f"
  then show "DetectAction (pre @ [f]) = ''unknown''"
    using DetectAction_loop_skip_units [of pre "[f]"] flagsWithValues_shape [of f]
    by (simp add: DetectAction_eq_loop ActionUnknown_def)
next
  assume "\<forall>a\<in>set args. HasPrefix a ''-''"
  then show "DetectAction args = ''unknown''"
    by (simp add: DetectAction_eq_loop DetectAction_loop_all_flags ActionUnknown_def)
next
  assume a: "flag_units pre \<and> \<not> HasPrefix tok ''-''
        \<and> tok \<notin> {''delete'', ''drain'', ''cordon'', ''uncordon'', ''scale'', ''edit'',
                  ''patch'', ''apply'', ''create'', ''exec'', ''rollout''}"
  then have "DestructiveActions tok = None"
    by (intro DestructiveActions_None) simp
  moreover from a have "flag_units pre" and "\<not> HasPrefix tok ''-''" by simp_all
  ultimately show "DetectAction (pre @ tok # rest) = tok"
    by (simp add: DetectAction_eq_loop DetectAction_loop_skip_units DetectAction_loop_other
        del: DetectAction_loop.simps)
qed

theorem DetectAction_unknown_or_passthrough_witness:
  "DetectAction [] = ''unknown''
   \<and> DetectAction [''--namespace=kube-system'', ''--watch'', ''-o'', ''json''] = ''unknown''
   \<and> DetectAction [''--namespace=kube-system'', ''--watch'', ''-o'', ''json'', ''-n'']
       = ''unknown''
   \<and> DetectAction [''-A'', ''-w'', ''--all''] = ''unknown''
   \<and> DetectAction [''--namespace=kube-system'', ''--watch'', ''-o'', ''json'', ''get'', ''pods'']
       = ''get''"
  using DetectAction_unknown_or_passthrough [of "[]" "''-n''" "[''-A'', ''-w'', ''--all'']"
      "''get''" "[''pods'']"]
    DetectAction_unknown_or_passthrough [of
      "[''--namespace=kube-system'', ''--watch'', ''-o'', ''json'']" "''-n''"
      "[''-A'', ''-w'', ''--all'']" "''get''" "[''pods'']"]
    flag_units_example2 no_flags
  by (simp add: HasPrefix_def flagsWithValues_def)

section \<open>The policy checks\<close>

text \<open>
  Claim C4. A rule token matches an action exactly when the two are equal after
  \<open>strings.ToLower\<close>, or the lowered rule is drain and the lowered action cordon, or edit
  and patch, or apply and create: drain, edit and apply each cover one more action, and
  every other rule token, delete, scale, exec and rollout among them, matches by equality
  up to case only. On ASCII strings \<open>strings.ToLower\<close> lowers the letters A to Z.
  \<open>IsBlocked\<close> and \<open>RequiresConfirmation\<close> hold exactly when some token of their list
  matches the action in this way.
\<close>

theorem matchAction_aliases:
  "(matchAction E rule action \<longleftrightarrow>
     (ToLower E rule = ToLower E action
      \<or> (ToLower E rule = ''drain'' \<and> ToLower E action = ''cordon'')
      \<or> (ToLower E rule = ''edit'' \<and> ToLower E action = ''patch'')
      \<or> (ToLower E rule = ''apply'' \<and> ToLower E action = ''create'')))
   \<and> (list_all (\<lambda>c. (of_char c :: nat) < 128) s \<longrightarrow> ToLower E s = map lower_byte s)
   \<and> (IsBlocked E action rules \<longleftrightarrow>
        (\<exists>blocked\<in>set (BlockedActions rules). matchAction E blocked action))
   \<and> (RequiresConfirmation E action rules \<longleftrightarrow>
        (\<exists>confirm\<in>set (RequireConfirmation rules). matchAction E confirm action))"
  using matchAction_iff [of E rule action] ToLower_ascii [of s E]
  by (simp add: IsBlocked_def RequiresConfirmation_def IsBlocked_loop_iff
      RequiresConfirmation_loop_iff)

theorem matchAction_aliases_witness:
  "RequiresConfirmation example_lib ''cordon''
     \<lparr>Tier = ''t'', RequireConfirmation = [''drain''], BlockedActions = []\<rparr>
   \<and> RequiresConfirmation example_lib ''create''
     \<lparr>Tier = ''t'', RequireConfirmation = [''apply''], BlockedActions = []\<rparr>
   \<and> IsBlocked example_lib ''DELETE''
     \<lparr>Tier = ''t'', RequireConfirmation = [], BlockedActions = [''delete'']\<rparr>
   \<and> \<not> IsBlocked example_lib ''drain''
     \<lparr>Tier = ''t'', RequireConfirmation = [], BlockedActions = [''cordon'', ''delete'']\<rparr>
   \<and> matchAction example_lib ''Edit'' ''PATCH''
   \<and> \<not> matchAction example_lib ''patch'' ''edit''
   \<and> \<not> matchAction example_lib ''exec'' ''rollout''"
  using matchAction_aliases [where E = example_lib and rule = "''drain''"
      and action = "''cordon''" and s = "''DELETE''"
      and rules = "\<lparr>Tier = ''t'', RequireConfirmation = [''drain''], BlockedActions = []\<rparr>"]
    matchAction_aliases [where E = example_lib and rule = "''apply''"
      and action = "''create''" and s = "''Edit''"
      and rules = "\<lparr>Tier = ''t'', RequireConfirmation = [''apply''], BlockedActions = []\<rparr>"]
    matchAction_aliases [where E = example_lib and rule = "''delete''"
      and action = "''DELETE''" and s = "''PATCH''"
      and rules = "\<lparr>Tier = ''t'', RequireConfirmation = [], BlockedActions = [''delete'']\<rparr>"]
    matchAction_aliases [where E = example_lib and rule = "''cordon''"
      and action = "''drain''" and s = "''drain''"
      and rules = "\<lparr>Tier = ''t'', RequireConfirmation = [],
                    BlockedActions = [''cordon'', ''delete'']\<rparr>"]
    matchAction_aliases [where E = example_lib and rule = "''delete''"
      and action = "''drain''" and s = "''delete''"
      and rules = "\<lparr>Tier = ''t'', RequireConfirmation = [], BlockedActions = []\<rparr>"]
    matchAction_aliases [where E = example_lib and rule = "''Edit''"
      and action = "''PATCH''" and s = "''patch''"
      and rules = "\<lparr>Tier = ''t'', RequireConfirmation = [], BlockedActions = []\<rparr>"]
    matchAction_aliases [where E = example_lib and rule = "''patch''"
      and action = "''edit''" and s = "''edit''"
      and rules = "\<lparr>Tier = ''t'', RequireConfirmation = [], BlockedActions = []\<rparr>"]
    matchAction_aliases [where E = example_lib and rule = "''exec''"
      and action = "''rollout''" and s = "''exec''"
      and rules = "\<lparr>Tier = ''t'', RequireConfirmation = [], BlockedActions = []\<rparr>"]
  by (simp add: ToLower_eval)

text \<open>
  Claim C1. When some token of the blocked list matches the action, the checks of
  \<open>main\<close> end in the blocked exit, whatever the confirmation list holds, whether or not
  the skip flag was given and whatever the prompt would answer: the command is not
  executed. The skip flag is read in the confirmation check only: when no token of the
  blocked list matches and the skip flag is given, the command is executed without a
  prompt.
\<close>

theorem blocked_before_confirmation:
  "((\<exists>blocked\<in>set (BlockedActions rules). matchAction E blocked action) \<longrightarrow>
      IsBlocked E action rules
      \<and> main_checks E action rules hasYesFlag confirmed args =
          Blocked (''Action '' @ [CHR 0x27] @ action @ [CHR 0x27]
                   @ '' is configured as blocked for tier '' @ [CHR 0x27] @ Tier rules
                   @ [CHR 0x27])
      \<and> (\<forall>xs. main_checks E action rules hasYesFlag confirmed args \<noteq> Executed xs)
      \<and> main_checks E action rules hasYesFlag confirmed args \<noteq> Cancelled)
   \<and> (\<not> (\<exists>blocked\<in>set (BlockedActions rules). matchAction E blocked action) \<longrightarrow>
      main_checks E action rules True confirmed args = Executed args)"
  by (simp add: main_checks_def IsBlocked_def IsBlocked_loop_iff)

text \<open>
  In the instances, delete stands in the confirmation list; with delete in the blocked
  list as well the run is blocked although the skip flag is given, and with an empty
  blocked list the skip flag lets the command run without the prompt.
\<close>

theorem blocked_before_confirmation_witness:
  "main_checks example_lib ''delete''
     \<lparr>Tier = ''production'', RequireConfirmation = [''delete''],
      BlockedActions = [''delete'']\<rparr>
     True True [''delete'', ''pod'', ''foo'']
   = Blocked (''Action '' @ [CHR 0x27] @ ''delete'' @ [CHR 0x27]
              @ '' is configured as blocked for tier '' @ [CHR 0x27] @ ''production''
              @ [CHR 0x27])
   \<and> RequiresConfirmation example_lib ''delete''
     \<lparr>Tier = ''production'', RequireConfirmation = [''delete''],
      BlockedActions = [''delete'']\<rparr>
   \<and> main_checks example_lib ''delete''
     \<lparr>Tier = ''production'', RequireConfirmation = [''delete''], BlockedActions = []\<rparr>
     True False [''delete'', ''pod'', ''foo'']
   = Executed [''delete'', ''pod'', ''foo'']"
  using blocked_before_confirmation [of
     "\<lparr>Tier = ''production'', RequireConfirmation = [''delete''],
       BlockedActions = [''delete'']\<rparr>"
     example_lib "''delete''" True True "[''delete'', ''pod'', ''foo'']"]
   blocked_before_confirmation [of
     "\<lparr>Tier = ''production'', RequireConfirmation = [''delete''], BlockedActions = []\<rparr>"
     example_lib "''delete''" True False "[''delete'', ''pod'', ''foo'']"]
  by (simp add: matchAction_iff RequiresConfirmation_def)

section \<open>The skip flag\<close>

text \<open>
  Claim C9. The extraction removes every token \<open>--yes\<close> and \<open>-y\<close>, wherever it stands,
  and keeps the other tokens in their order; the skip flag is set exactly when such a
  token occurred. The action is detected on the remaining tokens, and an execution
  receives these tokens only, so neither \<open>--yes\<close> nor \<open>-y\<close> reaches the wrapped tool.
\<close>

theorem yes_flag_removed:
  "extractYes_loop False [] args =
     (list_ex (\<lambda>a. a = ''--yes'' \<or> a = ''-y'') args,
      filter (\<lambda>a. a \<noteq> ''--yes'' \<and> a \<noteq> ''-y'') args)
   \<and> main E cfg ckeys tkeys context confirmed args =
       main_checks E
         (DetectAction (filter (\<lambda>a. a \<noteq> ''--yes'' \<and> a \<noteq> ''-y'') args))
         (GetClusterRules E cfg ckeys tkeys context)
         (list_ex (\<lambda>a. a = ''--yes'' \<or> a = ''-y'') args) confirmed
         (filter (\<lambda>a. a \<noteq> ''--yes'' \<and> a \<noteq> ''-y'') args)
   \<and> (main E cfg ckeys tkeys context confirmed args = Executed xs \<longrightarrow>
        xs = filter (\<lambda>a. a \<noteq> ''--yes'' \<and> a \<noteq> ''-y'') args
        \<and> ''--yes'' \<notin> set xs \<and> ''-y'' \<notin> set xs)"
  by (auto simp: main_def extractYes_loop_eq Let_def main_checks_def split: if_splits)

text \<open>
  In the instance, \<open>--yes\<close> stands where the value of \<open>-n\<close> would: it is removed all the
  same, \<open>delete\<close> becomes the value of \<open>-n\<close>, and the action detected is \<open>pod\<close>.
\<close>

theorem yes_flag_removed_witness:
  "main example_lib Default [] [''production'', ''staging'', ''development''] ''prod-us-east-1''
     False [''-n'', ''--yes'', ''delete'', ''pod'', ''-y'', ''foo'']
   = main_checks example_lib ''pod''
       (GetClusterRules example_lib Default [] [''production'', ''staging'', ''development'']
          ''prod-us-east-1'')
       True False [''-n'', ''delete'', ''pod'', ''foo'']"
  using yes_flag_removed [of "[''-n'', ''--yes'', ''delete'', ''pod'', ''-y'', ''foo'']"
    example_lib Default "[]" "[''production'', ''staging'', ''development'']"
    "''prod-us-east-1''" False "[''-n'', ''delete'', ''pod'', ''foo'']"]
  by (simp add: DetectAction_def HasPrefix_def flagsWithValues_def DestructiveActions_def)

section \<open>Resolution of the rules of a cluster\<close>

text \<open>
  Claim C2. When the context name is a key of \<open>clusters\<close>, \<open>GetClusterRules\<close> returns the
  tier, the confirmation list and the blocked list of that entry as they stand, whatever
  the other cluster keys and the tier patterns match and in whatever order the maps are
  visited. Only when the name is no key does a cluster key that matches as a pattern
  decide, and only when no cluster key matches does a tier with a matching pattern decide.
\<close>

theorem exact_cluster_first:
  "(Clusters c context = Some rules \<longrightarrow>
      GetClusterRules E c ckeys tkeys context =
        \<lparr>Tier = Cluster_Tier rules,
         RequireConfirmation = Cluster_RequireConfirmation rules,
         BlockedActions = Cluster_BlockedActions rules\<rparr>)
   \<and> (Clusters c context = None
        \<and> (\<exists>k\<in>set ckeys. k \<in> dom (Clusters c) \<and> matchGlob E k context) \<longrightarrow>
      (\<exists>k\<in>set ckeys. \<exists>rules'. Clusters c k = Some rules' \<and> matchGlob E k context
         \<and> GetClusterRules E c ckeys tkeys context =
             \<lparr>Tier = Cluster_Tier rules',
              RequireConfirmation = Cluster_RequireConfirmation rules',
              BlockedActions = Cluster_BlockedActions rules'\<rparr>))
   \<and> (Clusters c context = None
        \<and> (\<forall>k\<in>set ckeys. k \<in> dom (Clusters c) \<longrightarrow> \<not> matchGlob E k context)
        \<and> (\<exists>t\<in>set tkeys. \<exists>tier. Tiers c t = Some tier
              \<and> (\<exists>p\<in>set (Patterns tier). matchGlob E p context)) \<longrightarrow>
      (\<exists>t\<in>set tkeys. \<exists>tier. Tiers c t = Some tier
         \<and> (\<exists>p\<in>set (Patterns tier). matchGlob E p context)
         \<and> GetClusterRules E c ckeys tkeys context =
             \<lparr>Tier = t,
              RequireConfirmation = Tier_RequireConfirmation tier,
              BlockedActions = Tier_BlockedActions tier\<rparr>))"
proof (intro conjI impI)
  assume "Clusters c context = Some rules"
  then show "GetClusterRules E c ckeys tkeys context =
        \<lparr>Tier = Cluster_Tier rules,
         RequireConfirmation = Cluster_RequireConfirmation rules,
         BlockedActions = Cluster_BlockedActions rules\<rparr>"
    by (rule GetClusterRules_exact)
next
  assume a: "Clusters c context = None
        \<and> (\<exists>k\<in>set ckeys. k \<in> dom (Clusters c) \<and> matchGlob E k context)"
  then have "rangeClusters E (Clusters c) ckeys context \<noteq> None"
    by (simp add: rangeClusters_None_iff)
  then obtain r where r: "rangeClusters E (Clusters c) ckeys context = Some r"
    by blast
  from a r have "GetClusterRules E c ckeys tkeys context = r"
    by (simp add: GetClusterRules_def)
  with rangeClusters_Some [OF r]
  show "\<exists>k\<in>set ckeys. \<exists>rules'. Clusters c k = Some rules' \<and> matchGlob E k context
         \<and> GetClusterRules E c ckeys tkeys context =
             \<lparr>Tier = Cluster_Tier rules',
              RequireConfirmation = Cluster_RequireConfirmation rules',
              BlockedActions = Cluster_BlockedActions rules'\<rparr>"
    by simp
next
  assume a: "Clusters c context = None
        \<and> (\<forall>k\<in>set ckeys. k \<in> dom (Clusters c) \<longrightarrow> \<not> matchGlob E k context)
        \<and> (\<exists>t\<in>set tkeys. \<exists>tier. Tiers c t = Some tier
              \<and> (\<exists>p\<in>set (Patterns tier). matchGlob E p context))"
  then have n: "rangeClusters E (Clusters c) ckeys context = None"
    by (simp add: rangeClusters_None_iff)
  from a have "rangeTiers E (Tiers c) tkeys context \<noteq> None"
    unfolding rangeTiers_None_iff by blast
  then obtain r where r: "rangeTiers E (Tiers c) tkeys context = Some r"
    by blast
  from a n r have "GetClusterRules E c ckeys tkeys context = r"
    by (simp add: GetClusterRules_def)
  with rangeTiers_Some [OF r]
  show "\<exists>t\<in>set tkeys. \<exists>tier. Tiers c t = Some tier
         \<and> (\<exists>p\<in>set (Patterns tier). matchGlob E p context)
         \<and> GetClusterRules E c ckeys tkeys context =
             \<lparr>Tier = t,
              RequireConfirmation = Tier_RequireConfirmation tier,
              BlockedActions = Tier_BlockedActions tier\<rparr>"
    by simp
qed

theorem exact_cluster_first_witness:
  "matchGlob example_lib ''*-prod'' ''special-prod''
   \<and> GetClusterRules example_lib priority_config [''special-prod''] [''production'']
       ''special-prod''
     = \<lparr>Tier = ''special'', RequireConfirmation = [''scale''], BlockedActions = [''delete'']\<rparr>
   \<and> GetClusterRules example_lib priority_config [''special-prod''] [''production'']
       ''other-prod''
     = \<lparr>Tier = ''production'', RequireConfirmation = [''delete'', ''drain''],
        BlockedActions = []\<rparr>"
  using exact_cluster_first [of priority_config "''special-prod''"
      "\<lparr>Cluster_Tier = ''special'', Cluster_RequireConfirmation = [''scale''],
        Cluster_BlockedActions = [''delete'']\<rparr>"
      example_lib "[''special-prod'']" "[''production'']"]
    exact_cluster_first [of priority_config "''other-prod''" _
      example_lib "[''special-prod'']" "[''production'']"]
  by (simp add: priority_config_def matchGlob_example)

text \<open>
  Claim C5. When the context name is no key of \<open>clusters\<close>, no cluster key matches it as
  a pattern and no pattern of any tier matches it, \<open>GetClusterRules\<close> returns the tier
  \<open>default\<close>, the blocked list of the defaults, and the confirmation list delete, drain
  if \<open>require_confirmation\<close> of the defaults is true, the empty list otherwise.
\<close>

theorem default_fallback:
  assumes "context \<notin> dom (Clusters c)"
    and "\<forall>k\<in>dom (Clusters c). \<not> matchGlob E k context"
    and "\<forall>t tier. Tiers c t = Some tier \<longrightarrow>
           (\<forall>p\<in>set (Patterns tier). \<not> matchGlob E p context)"
  shows "GetClusterRules E c ckeys tkeys context =
     \<lparr>Tier = ''default'',
      RequireConfirmation =
        (if Defaults_RequireConfirmation (Defaults c) then [''delete'', ''drain''] else []),
      BlockedActions = Defaults_BlockedActions (Defaults c)\<rparr>"
proof -
  from assms(1) have "Clusters c context = None" by blast
  moreover from assms(2) have "rangeClusters E (Clusters c) ckeys context = None"
    by (simp add: rangeClusters_None_iff)
  moreover from assms(3) have "rangeTiers E (Tiers c) tkeys context = None"
    by (simp add: rangeTiers_None_iff)
  ultimately show ?thesis by (simp add: GetClusterRules_def)
qed

theorem default_fallback_witness:
  "GetClusterRules example_lib two_patterns_config [''*-eu'', ''prod-*''] [] ''minikube''
     = \<lparr>Tier = ''default'', RequireConfirmation = [''delete'', ''drain''],
        BlockedActions = [''exec'']\<rparr>
   \<and> GetClusterRules example_lib Default [] [''staging'', ''production'', ''development'']
       ''unknown-cluster''
     = \<lparr>Tier = ''default'', RequireConfirmation = [], BlockedActions = []\<rparr>"
  using default_fallback [of "''minikube''" two_patterns_config example_lib
      "[''*-eu'', ''prod-*'']" "[]"]
    default_fallback [of "''unknown-cluster''" Default example_lib "[]"
      "[''staging'', ''production'', ''development'']"]
  by (simp add: two_patterns_config_def Default_def matchGlob_example dom_def)

text \<open>
  Claim C7, as stated: two evaluations of \<open>GetClusterRules\<close> on the same configuration
  and context name give the same rules. The two \<open>range\<close> statements visit the maps in an
  order Go does not fix, and the first match wins: with two cluster keys that both match
  the context name, two visits in different orders return different rules.
\<close>

theorem resolution_not_a_function_counterexample:
  "set [''prod-*'', ''*-eu''] = dom (Clusters two_patterns_config)
   \<and> set [''*-eu'', ''prod-*''] = dom (Clusters two_patterns_config)
   \<and> set [] = dom (Tiers two_patterns_config)
   \<and> GetClusterRules example_lib two_patterns_config [''prod-*'', ''*-eu''] [] ''prod-eu''
     = \<lparr>Tier = ''production'', RequireConfirmation = [''delete'', ''drain''],
        BlockedActions = []\<rparr>
   \<and> GetClusterRules example_lib two_patterns_config [''*-eu'', ''prod-*''] [] ''prod-eu''
     = \<lparr>Tier = ''europe'', RequireConfirmation = [], BlockedActions = [''delete'']\<rparr>
   \<and> GetClusterRules example_lib two_patterns_config [''prod-*'', ''*-eu''] [] ''prod-eu''
     \<noteq> GetClusterRules example_lib two_patterns_config [''*-eu'', ''prod-*''] [] ''prod-eu''"
proof -
  have "set [''*-eu'', ''prod-*''] = dom (Clusters two_patterns_config)"
    by (auto simp: two_patterns_dom)
  then show ?thesis
    by (simp add: two_patterns_dom)
       (simp add: GetClusterRules_def two_patterns_config_def matchGlob_example)
qed

text \<open>
  Claim C7, amended. \<open>GetClusterRules\<close> is a function of the configuration, the context
  name and the orders in which the two maps are visited, and of nothing else. Two
  evaluations give the same rules, whatever the two orders of each map, when the context
  name is a key of \<open>clusters\<close>, or when all cluster keys that match the name as a pattern
  carry the same rules and, in case no cluster key matches, at most one tier has a
  pattern that matches it. In every other case, that is with two matching cluster keys of
  different rules, or with no matching cluster key and two tiers that match, there are
  orders of the maps for which two evaluations differ.
\<close>

theorem resolution_up_to_iteration_order:
  "(set ckeys = dom (Clusters c) \<and> set ckeys' = dom (Clusters c)
    \<and> set tkeys = dom (Tiers c) \<and> set tkeys' = dom (Tiers c)
    \<and> (context \<in> dom (Clusters c)
       \<or> ((\<forall>k k' r r'. Clusters c k = Some r \<and> Clusters c k' = Some r'
                \<and> matchGlob E k context \<and> matchGlob E k' context \<longrightarrow> r = r')
          \<and> ((\<exists>k\<in>dom (Clusters c). matchGlob E k context)
              \<or> (\<forall>t t' tier tier'. Tiers c t = Some tier \<and> Tiers c t' = Some tier'
                    \<and> (\<exists>p\<in>set (Patterns tier). matchGlob E p context)
                    \<and> (\<exists>p\<in>set (Patterns tier'). matchGlob E p context) \<longrightarrow> t = t'))))
    \<longrightarrow> GetClusterRules E c ckeys tkeys context = GetClusterRules E c ckeys' tkeys' context)
   \<and> (finite (dom (Clusters c)) \<and> finite (dom (Tiers c))
    \<and> \<not> (context \<in> dom (Clusters c)
       \<or> ((\<forall>k k' r r'. Clusters c k = Some r \<and> Clusters c k' = Some r'
                \<and> matchGlob E k context \<and> matchGlob E k' context \<longrightarrow> r = r')
          \<and> ((\<exists>k\<in>dom (Clusters c). matchGlob E k context)
              \<or> (\<forall>t t' tier tier'. Tiers c t = Some tier \<and> Tiers c t' = Some tier'
                    \<and> (\<exists>p\<in>set (Patterns tier). matchGlob E p context)
                    \<and> (\<exists>p\<in>set (Patterns tier'). matchGlob E p context) \<longrightarrow> t = t'))))
    \<longrightarrow> (\<exists>ks ks' ts ts'.
           distinct ks \<and> set ks = dom (Clusters c)
           \<and> distinct ks' \<and> set ks' = dom (Clusters c)
           \<and> distinct ts \<and> set ts = dom (Tiers c)
           \<and> distinct ts' \<and> set ts' = dom (Tiers c)
           \<and> GetClusterRules E c ks ts context \<noteq> GetClusterRules E c ks' ts' context))"
proof (intro conjI impI)
  assume "set ckeys = dom (Clusters c) \<and> set ckeys' = dom (Clusters c)
    \<and> set tkeys = dom (Tiers c) \<and> set tkeys' = dom (Tiers c)
    \<and> (context \<in> dom (Clusters c)
       \<or> ((\<forall>k k' r r'. Clusters c k = Some r \<and> Clusters c k' = Some r'
                \<and> matchGlob E k context \<and> matchGlob E k' context \<longrightarrow> r = r')
          \<and> ((\<exists>k\<in>dom (Clusters c). matchGlob E k context)
              \<or> (\<forall>t t' tier tier'. Tiers c t = Some tier \<and> Tiers c t' = Some tier'
                    \<and> (\<exists>p\<in>set (Patterns tier). matchGlob E p context)
                    \<and> (\<exists>p\<in>set (Patterns tier'). matchGlob E p context) \<longrightarrow> t = t'))))"
  then show "GetClusterRules E c ckeys tkeys context = GetClusterRules E c ckeys' tkeys' context"
    by (intro GetClusterRules_order_independent) (elim conjE, assumption)+
next
  assume a: "finite (dom (Clusters c)) \<and> finite (dom (Tiers c))
    \<and> \<not> (context \<in> dom (Clusters c)
       \<or> ((\<forall>k k' r r'. Clusters c k = Some r \<and> Clusters c k' = Some r'
                \<and> matchGlob E k context \<and> matchGlob E k' context \<longrightarrow> r = r')
          \<and> ((\<exists>k\<in>dom (Clusters c). matchGlob E k context)
              \<or> (\<forall>t t' tier tier'. Tiers c t = Some tier \<and> Tiers c t' = Some tier'
                    \<and> (\<exists>p\<in>set (Patterns tier). matchGlob E p context)
                    \<and> (\<exists>p\<in>set (Patterns tier'). matchGlob E p context) \<longrightarrow> t = t'))))"
  then have fc: "finite (dom (Clusters c))" and ft: "finite (dom (Tiers c))"
    and n: "context \<notin> dom (Clusters c)"
    by simp_all
  from a have d: "(\<exists>k k' r r'. Clusters c k = Some r \<and> Clusters c k' = Some r'
               \<and> matchGlob E k context \<and> matchGlob E k' context \<and> r \<noteq> r')
          \<or> ((\<forall>k\<in>dom (Clusters c). \<not> matchGlob E k context)
              \<and> (\<exists>t t' tier tier'. Tiers c t = Some tier \<and> Tiers c t' = Some tier'
                    \<and> (\<exists>p\<in>set (Patterns tier). matchGlob E p context)
                    \<and> (\<exists>p\<in>set (Patterns tier'). matchGlob E p context) \<and> t \<noteq> t'))"
    by blast
  from GetClusterRules_order_dependent [OF fc ft n d]
  show "\<exists>ks ks' ts ts'.
           distinct ks \<and> set ks = dom (Clusters c)
           \<and> distinct ks' \<and> set ks' = dom (Clusters c)
           \<and> distinct ts \<and> set ts = dom (Tiers c)
           \<and> distinct ts' \<and> set ts' = dom (Tiers c)
           \<and> GetClusterRules E c ks ts context \<noteq> GetClusterRules E c ks' ts' context" .
qed

text \<open>
  The instances: a cluster key matches and so do two tiers, which are never reached; no
  cluster key exists and one tier matches; two cluster keys of different rules match.
\<close>

theorem resolution_up_to_iteration_order_witness:
  "GetClusterRules example_lib pattern_and_tiers_config [''prod-*'']
       [''production'', ''staging'', ''development''] ''prod-dev''
   = GetClusterRules example_lib pattern_and_tiers_config [''prod-*'']
       [''development'', ''staging'', ''production''] ''prod-dev''
   \<and> GetClusterRules example_lib Default []
       [''production'', ''staging'', ''development''] ''prod-us-east-1''
   = GetClusterRules example_lib Default []
       [''development'', ''staging'', ''production''] ''prod-us-east-1''
   \<and> (\<exists>ks ks' ts ts'.
         distinct ks \<and> set ks = dom (Clusters two_patterns_config)
         \<and> distinct ks' \<and> set ks' = dom (Clusters two_patterns_config)
         \<and> distinct ts \<and> set ts = dom (Tiers two_patterns_config)
         \<and> distinct ts' \<and> set ts' = dom (Tiers two_patterns_config)
         \<and> GetClusterRules example_lib two_patterns_config ks ts ''prod-eu''
             \<noteq> GetClusterRules example_lib two_patterns_config ks' ts' ''prod-eu'')"
proof (intro conjI)
  have m: "\<exists>k\<in>dom (Clusters pattern_and_tiers_config). matchGlob example_lib k ''prod-dev''"
    by (simp add: pattern_and_tiers_dom matchGlob_example)
  have s: "set [''development'', ''staging'', ''production'']
      = dom (Tiers pattern_and_tiers_config)"
    by (auto simp: pattern_and_tiers_dom)
  show "GetClusterRules example_lib pattern_and_tiers_config [''prod-*'']
       [''production'', ''staging'', ''development''] ''prod-dev''
   = GetClusterRules example_lib pattern_and_tiers_config [''prod-*'']
       [''development'', ''staging'', ''production''] ''prod-dev''"
    apply (rule resolution_up_to_iteration_order [THEN conjunct1, THEN mp])
    apply (intro conjI)
        apply (simp add: pattern_and_tiers_dom)
       apply (simp add: pattern_and_tiers_dom)
      apply (simp add: pattern_and_tiers_dom)
     apply (rule s)
    apply (rule disjI2)
    apply (rule conjI)
     apply (blast dest: pattern_and_tiers_cluster)
    apply (rule disjI1)
    apply (rule m)
    done
next
  have s: "set [''development'', ''staging'', ''production''] = dom (Tiers Default)"
    by (auto simp: Default_dom)
  show "GetClusterRules example_lib Default []
       [''production'', ''staging'', ''development''] ''prod-us-east-1''
   = GetClusterRules example_lib Default []
       [''development'', ''staging'', ''production''] ''prod-us-east-1''"
    apply (rule resolution_up_to_iteration_order [THEN conjunct1, THEN mp])
    apply (intro conjI)
        apply (simp add: Default_dom)
       apply (simp add: Default_dom)
      apply (simp add: Default_dom)
     apply (rule s)
    apply (rule disjI2)
    apply (rule conjI)
     apply (simp add: Default_def)
    apply (rule disjI2)
    apply (metis Default_unique)
    done
next
  have n: "''prod-eu'' \<notin> dom (Clusters two_patterns_config)"
    by (simp add: two_patterns_dom)
  show "\<exists>ks ks' ts ts'.
         distinct ks \<and> set ks = dom (Clusters two_patterns_config)
         \<and> distinct ks' \<and> set ks' = dom (Clusters two_patterns_config)
         \<and> distinct ts \<and> set ts = dom (Tiers two_patterns_config)
         \<and> distinct ts' \<and> set ts' = dom (Tiers two_patterns_config)
         \<and> GetClusterRules example_lib two_patterns_config ks ts ''prod-eu''
             \<noteq> GetClusterRules example_lib two_patterns_config ks' ts' ''prod-eu''"
    apply (rule resolution_up_to_iteration_order [THEN conjunct2, THEN mp])
    apply (intro conjI)
      apply (simp add: two_patterns_dom)
     apply (simp add: two_patterns_dom)
    using n two_patterns_differ apply blast
    done
qed

section \<open>Patterns that do not compile\<close>

text \<open>
  Claim C6, as stated: when the compilation of a pattern fails, the pattern is compared
  with the context name literally, so that a name equal to the pattern matches. The code
  hands the pattern to \<open>filepath.Match\<close>, which reads it as a pattern again: the pattern
  \<open>[\<close>, a character class that is never closed, is rejected by the compiler and by
  \<open>filepath.Match\<close>, and the name \<open>[\<close> does not match it. A context of that name is
  not put into the tier that lists the pattern; it gets the default rules.
\<close>

theorem matchGlob_literal_counterexample:
  "glob_Compile example_lib ''['' = None
   \<and> filepath_Match example_lib ''['' ''['' = (False, True)
   \<and> \<not> (matchGlob example_lib ''['' ''['' \<longleftrightarrow> ''['' = ''['')
   \<and> GetClusterRules example_lib malformed_config [] [''production''] ''[''
     = \<lparr>Tier = ''default'', RequireConfirmation = [], BlockedActions = []\<rparr>"
  by (simp add: matchGlob_def example_lib_def GetClusterRules_def malformed_config_def)

text \<open>
  Claim C6, amended. When the compilation of a pattern fails, \<open>matchGlob\<close> returns what
  \<open>filepath.Match\<close> reports as matched for the pattern and the context name, and drops
  its error. The failure does not end the resolution: when \<open>filepath.Match\<close> reports no
  match, the loops over the cluster keys and over the patterns of a tier go on with the
  next pattern.
\<close>

theorem matchGlob_fallback:
  assumes "glob_Compile E pattern = None"
  shows "matchGlob E pattern str = fst (filepath_Match E pattern str)
    \<and> (\<not> fst (filepath_Match E pattern str) \<longrightarrow>
         rangeClusters E m (pattern # keys) str = rangeClusters E m keys str
         \<and> rangePatterns E (pattern # ps) str = rangePatterns E ps str)"
  using assms by (auto simp: matchGlob_def split: prod.splits option.splits)

text \<open>
  In the instance the loop over the patterns of the production tier passes the pattern
  that does not compile and finds the next one.
\<close>

theorem matchGlob_fallback_witness:
  "glob_Compile example_lib ''['' = None
   \<and> \<not> matchGlob example_lib ''['' ''eu-prod''
   \<and> rangePatterns example_lib [''['', ''*-prod''] ''eu-prod''
   \<and> GetClusterRules example_lib malformed_config [] [''production''] ''eu-prod''
     = \<lparr>Tier = ''production'', RequireConfirmation = [''delete'', ''drain''],
        BlockedActions = []\<rparr>"
  using matchGlob_fallback [of example_lib "''[''" "''eu-prod''" Map.empty "[]" "[''*-prod'']"]
  by (simp add: example_lib_def matchGlob_def GetClusterRules_def malformed_config_def)

section \<open>Severity and description\<close>

text \<open>
  Claim C10. \<open>GetActionSeverity\<close> returns one of \<open>high\<close>, \<open>medium\<close>, \<open>low\<close>, \<open>none\<close> on
  every string: \<open>high\<close> exactly for delete and drain, \<open>medium\<close> exactly for scale, cordon,
  edit, patch and rollout, \<open>low\<close> exactly for apply and create, \<open>none\<close> for every other
  string; and \<open>DescribeAction\<close> returns its argument for every string that is none of the
  ten action tags.
\<close>

theorem GetActionSeverity_classes:
  "GetActionSeverity a \<in> {''high'', ''medium'', ''low'', ''none''}
   \<and> (GetActionSeverity a = ''high'' \<longleftrightarrow> a \<in> {''delete'', ''drain''})
   \<and> (GetActionSeverity a = ''medium'' \<longleftrightarrow>
        a \<in> {''scale'', ''cordon'', ''edit'', ''patch'', ''rollout''})
   \<and> (GetActionSeverity a = ''low'' \<longleftrightarrow> a \<in> {''apply'', ''create''})
   \<and> (GetActionSeverity a = ''none'' \<longleftrightarrow>
        a \<notin> {''delete'', ''drain'', ''scale'', ''cordon'', ''edit'', ''patch'', ''rollout'',
              ''apply'', ''create''})
   \<and> (a \<notin> {''delete'', ''drain'', ''cordon'', ''scale'', ''edit'', ''patch'', ''apply'',
            ''create'', ''exec'', ''rollout''} \<longrightarrow> DescribeAction a = a)"
  by (simp add: GetActionSeverity_def DescribeAction_def Action_defs)

theorem GetActionSeverity_classes_witness:
  "GetActionSeverity ''get'' = ''none'' \<and> GetActionSeverity ''exec'' = ''none''
   \<and> GetActionSeverity ''unknown'' = ''none'' \<and> GetActionSeverity ''drain'' = ''high''
   \<and> DescribeAction ''get'' = ''get''"
  using GetActionSeverity_classes [of "''get''"] GetActionSeverity_classes [of "''exec''"]
    GetActionSeverity_classes [of "''unknown''"] GetActionSeverity_classes [of "''drain''"]
  by simp

end
